theory Spec2Isabelle
  imports Main "HOL-Library.Word"
begin

section \<open>JavaScript strings\<close>

text \<open>
  A JavaScript string is a sequence of UTF-16 code units, and \<open>length\<close>,
  \<open>substring\<close>, \<open>trim\<close>, \<open>split\<close> and the regular expressions of the program
  (none carries the \<open>u\<close> flag) all work on code units. A code unit is a 16-bit word.
\<close>

type_synonym jschar = "16 word"
type_synonym jsstring = "jschar list"

text \<open>Source literals are ASCII; \<open>str\<close> reads one as a JavaScript string.\<close>

definition str :: "string \<Rightarrow> jsstring" where
  "str s = map (\<lambda>c. of_nat (of_char c)) s"

text \<open>
  The class \<open>\s\<close> of a regular expression, which is also what \<open>trim\<close> strips:
  WhiteSpace (TAB, VT, FF, ZWNBSP and the space separators) and LineTerminator
  (LF, CR, LS, PS).
\<close>

definition isSpace :: "jschar \<Rightarrow> bool" where
  "isSpace c \<longleftrightarrow>
     c = 0x09 \<or> c = 0x0A \<or> c = 0x0B \<or> c = 0x0C \<or> c = 0x0D \<or> c = 0x20 \<or> c = 0xA0
     \<or> c = 0x1680 \<or> (0x2000 \<le> c \<and> c \<le> 0x200A) \<or> c = 0x2028 \<or> c = 0x2029
     \<or> c = 0x202F \<or> c = 0x205F \<or> c = 0x3000 \<or> c = 0xFEFF"

text \<open>The class \<open>\w\<close>: \<open>[A-Za-z0-9_]\<close>.\<close>

definition isWord :: "jschar \<Rightarrow> bool" where
  "isWord c \<longleftrightarrow>
     (0x41 \<le> c \<and> c \<le> 0x5A) \<or> (0x61 \<le> c \<and> c \<le> 0x7A) \<or> (0x30 \<le> c \<and> c \<le> 0x39)
     \<or> c = 0x5F"

text \<open>\<open>s.trim()\<close>.\<close>

definition trim :: "jsstring \<Rightarrow> jsstring" where
  "trim s = rev (dropWhile isSpace (rev (dropWhile isSpace s)))"

text \<open>
  \<open>s.substring(start, end)\<close> for integer arguments: both are clamped to
  \<open>[0, s.length]\<close> and swapped when \<open>start > end\<close>.
\<close>

definition substring :: "jsstring \<Rightarrow> int \<Rightarrow> int \<Rightarrow> jsstring" where
  "substring s start end' =
     (let len = int (length s);
          a = min (max start 0) len;
          b = min (max end' 0) len;
          lo = nat (min a b);
          hi = nat (max a b)
      in take (hi - lo) (drop lo s))"

text \<open>
  \<open>s.replace(/C+/g, r)\<close> for a character class \<open>C\<close>: every maximal run of
  characters of the class is replaced by \<open>r\<close>.
\<close>

function replaceRuns :: "(jschar \<Rightarrow> bool) \<Rightarrow> jsstring \<Rightarrow> jsstring \<Rightarrow> jsstring" where
  "replaceRuns C r [] = []"
| "replaceRuns C r (c # cs) =
     (if C c then r @ replaceRuns C r (dropWhile C cs) else c # replaceRuns C r cs)"
  by pat_completeness auto
termination
  by (relation "measure (\<lambda>(C, r, s). length s)")
     (auto simp: length_dropWhile_le less_Suc_eq_le)

text \<open>\<open>s.replace(/[^...]/g, '')\<close>: every character outside the class is deleted.\<close>

definition removeOutside :: "(jschar \<Rightarrow> bool) \<Rightarrow> jsstring \<Rightarrow> jsstring" where
  "removeOutside keep s = filter keep s"

text \<open>
  \<open>s.split(/C+/)\<close> for a character class \<open>C\<close>, after the algorithm of
  \<open>RegExp.prototype[Symbol.split]\<close>: \<open>cur\<close> is the piece \<open>S[p..q)\<close> read so far;
  a match at \<open>q\<close> is the maximal run of class characters there, it closes the piece
  and the next piece starts after the run; the piece open at the end of the string is
  always pushed, also when it is empty.
\<close>

function splitRuns :: "(jschar \<Rightarrow> bool) \<Rightarrow> jsstring \<Rightarrow> jsstring \<Rightarrow> jsstring list" where
  "splitRuns C cur [] = [cur]"
| "splitRuns C cur (c # cs) =
     (if C c then cur # splitRuns C [] (dropWhile C cs) else splitRuns C (cur @ [c]) cs)"
  by pat_completeness auto
termination
  by (relation "measure (\<lambda>(C, cur, s). length s)")
     (auto simp: length_dropWhile_le less_Suc_eq_le)

definition split :: "(jschar \<Rightarrow> bool) \<Rightarrow> jsstring \<Rightarrow> jsstring list" where
  "split C s = splitRuns C [] s"



text \<open>The decimal digits of a non-negative integer, as template literals print it.\<close>

fun toString :: "nat \<Rightarrow> jsstring" where
  "toString n =
     (if n < 10 then [0x30 + of_nat n] else toString (n div 10) @ [0x30 + of_nat (n mod 10)])"

declare toString.simps [simp del]


section \<open>Text processing (utils/textProcessor.js)\<close>

text \<open>The characters \<open>cleanText\<close> keeps: \<open>[\w\s.,!?;:()\-'"]\<close>.\<close>

definition allowedChar :: "jschar \<Rightarrow> bool" where
  "allowedChar c \<longleftrightarrow>
     isWord c \<or> isSpace c \<or> c = 0x2E \<or> c = 0x2C \<or> c = 0x21 \<or> c = 0x3F \<or> c = 0x3B
     \<or> c = 0x3A \<or> c = 0x28 \<or> c = 0x29 \<or> c = 0x2D \<or> c = 0x27 \<or> c = 0x22"

definition cleanText :: "jsstring \<Rightarrow> jsstring" where
  "cleanText text' =
     (if text' = [] then []
      else let cleaned = replaceRuns isSpace (str '' '') text';
               cleaned = removeOutside allowedChar cleaned
           in trim cleaned)"

text \<open>The sentence separators \<open>[.!?]\<close>.\<close>

definition isSentenceEnd :: "jschar \<Rightarrow> bool" where
  "isSentenceEnd c \<longleftrightarrow> c = 0x2E \<or> c = 0x21 \<or> c = 0x3F"

text \<open>
  \<open>Math.round(n / 200)\<close> for a length \<open>n\<close>: \<open>Math.round\<close> rounds halves up, and
  \<open>n / 200\<close> is exactly half-way only at \<open>n = 200 k + 100\<close>, where the quotient is
  exact.
\<close>

definition roundDiv200 :: "nat \<Rightarrow> nat" where
  "roundDiv200 n = (n + 100) div 200"

record metadata =
  wordCount :: nat
  sentenceCount :: nat
  characterCount :: nat
  readingTime :: jsstring
  timestamp :: jsstring

text \<open>
  \<open>extractMetadata\<close> reads the clock: \<open>now\<close> is the value of
  \<open>new Date().toISOString()\<close> at the call.
\<close>

definition extractMetadata :: "jsstring \<Rightarrow> jsstring \<Rightarrow> metadata" where
  "extractMetadata now text' =
     (let words = split isSpace text';
          sentences = filter (\<lambda>s. length (trim s) > 0) (split isSentenceEnd text');
          characters = length text';
          readingTime' = max 1 (roundDiv200 (length words))
      in \<lparr> wordCount = length words,
           sentenceCount = length sentences,
           characterCount = characters,
           readingTime = toString readingTime' @ str '' min read'',
           timestamp = now \<rparr>)"

text \<open>\<open>truncateText(text, maxLength)\<close>; the default of \<open>maxLength\<close> is 5000.\<close>

definition truncateText :: "jsstring \<Rightarrow> int \<Rightarrow> jsstring" where
  "truncateText text' maxLength =
     (if int (length text') \<le> maxLength then text'
      else substring text' 0 maxLength @ str ''...'')"


section \<open>Scraping (the scraper with two fetchers, and utils/scraper.js)\<close>

text \<open>
  \<open>SCRAPER_CONFIG\<close>. The numbers come from the environment through
  \<open>parseInt(...) || default\<close>, so each is some integer other than 0.
\<close>

record scraper_config =
  timeout :: int
  maxRetries :: int
  maxTextLength :: int

text \<open>A thrown \<open>Error\<close> object; \<open>message\<close> is the only property the program reads.\<close>

datatype jserror = Error (message: jsstring)

text \<open>
  The platform's \<open>new URL(url)\<close> is a parameter: \<open>None\<close> when the constructor
  throws, otherwise the URL object, of which only \<open>protocol\<close> is read.
\<close>

datatype url = URL (protocol: jsstring)

definition isValidUrl :: "(jsstring \<Rightarrow> url option) \<Rightarrow> jsstring \<Rightarrow> bool" where
  "isValidUrl parseURL u =
     (case parseURL u of
        None \<Rightarrow> False
      | Some urlObj \<Rightarrow> protocol urlObj = str ''http:'' \<or> protocol urlObj = str ''https:'')"

text \<open>
  The result object of a fetcher, \<open>{ success, title, text, wordCount, method }\<close>
  (the fields carry a prefix, the record of the metadata has a \<open>wordCount\<close> too).
\<close>

record scrape_result =
  scr_success :: bool
  scr_title :: jsstring
  scr_text :: jsstring
  scr_wordCount :: nat
  scr_method :: jsstring

text \<open>
  Both fetchers clean the text they selected with
  \<open>.replace(/\s+/g, ' ').trim().substring(0, SCRAPER_CONFIG.maxTextLength)\<close>.
\<close>

definition cleanedText :: "scraper_config \<Rightarrow> jsstring \<Rightarrow> jsstring" where
  "cleanedText cfg text' =
     substring (trim (replaceRuns isSpace (str '' '') text')) 0 (maxTextLength cfg)"

type_synonym selector = string

subsection \<open>The rendering fetcher\<close>

text \<open>
  An element that \<open>document.querySelector\<close> returns; \<open>innerText\<close> is undefined
  (\<open>None\<close>) on an element that is not an HTML element.
\<close>

datatype element = Element (innerText: "jsstring option")

text \<open>
  What the browser session gives once the page is loaded and the unwanted elements are
  removed: the value of \<open>page.title()\<close>, \<open>document.querySelector\<close>, the inner
  text of \<open>document.body\<close> (\<open>None\<close> when \<open>document.body\<close> is null), and whether
  \<open>browser.close()\<close> resolves.
\<close>

record rendered =
  pageTitle :: jsstring
  querySelector :: "selector \<Rightarrow> element option"
  bodyInnerText :: "jsstring option"
  closeResolves :: bool

definition mainSelectors :: "selector list" where
  \<open>mainSelectors =
     [''main'', ''article'', ''[role="main"]'', ''.content'', ''.main-content'', ''#content'',
      ''body'']\<close>

text \<open>
  The test \<open>element && element.innerText && element.innerText.length > 200\<close>, giving
  the inner text when it passes.
\<close>

definition over200 :: "rendered \<Rightarrow> selector \<Rightarrow> jsstring option" where
  "over200 doc selector =
     (case querySelector doc selector of
        None \<Rightarrow> None
      | Some element \<Rightarrow>
          (case innerText element of
             None \<Rightarrow> None
           | Some t \<Rightarrow> if t \<noteq> [] \<and> length t > 200 then Some t else None))"

text \<open>The loop \<open>for (const selector of mainSelectors)\<close>, which returns from inside.\<close>

fun firstOver200 :: "rendered \<Rightarrow> selector list \<Rightarrow> jsstring option" where
  "firstOver200 doc [] = None"
| "firstOver200 doc (selector # rest) =
     (case over200 doc selector of
        Some t \<Rightarrow> Some t
      | None \<Rightarrow> firstOver200 doc rest)"

text \<open>
  The function evaluated in the page to extract the text. After the loop it reads
  \<open>document.body.innerText\<close>, which throws a TypeError when \<open>document.body\<close> is null.
\<close>

definition extractText :: "rendered \<Rightarrow> jserror + jsstring" where
  "extractText doc =
     (case firstOver200 doc mainSelectors of
        Some t \<Rightarrow> Inr t
      | None \<Rightarrow>
          (case bodyInnerText doc of
             None \<Rightarrow> Inl (Error (str ''Cannot read properties of null''))
           | Some t \<Rightarrow> Inr t))"

text \<open>
  The network as the program meets it: the URL parser, the outcome of the browser
  session for a URL (\<open>Inl\<close> when launching, navigating or evaluating throws) and the
  outcome of \<open>axios.get\<close> for a URL (\<open>Inl\<close> on a network error or a timeout).
\<close>

record response =
  status :: int
  document :: "selector \<Rightarrow> jsstring list"

record world =
  parseURL :: "jsstring \<Rightarrow> url option"
  browse :: "jsstring \<Rightarrow> jserror + rendered"
  httpGet :: "jsstring \<Rightarrow> jserror + response"

text \<open>The fetches attempted so far, in order.\<close>

datatype fetch = Puppeteer jsstring | Cheerio jsstring

text \<open>
  \<open>scrapeWithPuppeteer\<close>: \<open>None\<close> is JavaScript's null. Every exception is caught
  and leads to null, also one of \<open>browser.close()\<close> after the extraction.
\<close>

definition scrapeWithPuppeteer ::
  "scraper_config \<Rightarrow> world \<Rightarrow> jsstring \<Rightarrow> fetch list \<Rightarrow> scrape_result option \<times> fetch list" where
  "scrapeWithPuppeteer cfg w u log =
     (let log' = log @ [Puppeteer u] in
      case browse w u of
        Inl error \<Rightarrow> (None, log')
      | Inr doc \<Rightarrow>
          (case extractText doc of
             Inl error \<Rightarrow> (None, log')
           | Inr text' \<Rightarrow>
               if \<not> closeResolves doc then (None, log')
               else
                 let cleaned = cleanedText cfg text' in
                 if length cleaned > 100 then
                   (Some \<lparr> scr_success = True,
                           scr_title = (if pageTitle doc \<noteq> [] then pageTitle doc
                                        else str ''Extracted Content''),
                           scr_text = cleaned,
                           scr_wordCount = length (split isSpace cleaned),
                           scr_method = str ''puppeteer-stealth'' \<rparr>, log')
                 else (None, log')))"

subsection \<open>The lightweight fetcher\<close>

text \<open>
  A document loaded by cheerio, after the unwanted elements are removed, is the function
  \<open>$\<close>: a selector gives the matched elements in document order, each as its text
  content. \<open>.length\<close> is the number of matches, \<open>.text()\<close> the concatenation of their
  texts and \<open>.first()\<close> the selection of the first match alone.
\<close>

definition contentSelectors :: "selector list" where
  \<open>contentSelectors =
     [''article'', ''main'', ''[role="main"]'', ''.content'', ''.post-content'',
      ''.article-content'', ''.entry-content'', ''#main-content'', ''body'']\<close>

text \<open>
  The loop \<open>for (const selector of contentSelectors)\<close> over the variable \<open>text\<close>,
  the same in both versions of the file.
\<close>

fun longestText :: "(selector \<Rightarrow> jsstring list) \<Rightarrow> selector list \<Rightarrow> jsstring \<Rightarrow> jsstring" where
  "longestText dollar [] text' = text'"
| "longestText dollar (selector # rest) text' =
     longestText dollar rest
       (let element = dollar selector in
        if length element \<noteq> 0 then
          (let extractedText = concat element in
           if length extractedText > length text' then extractedText else text')
        else text')"

definition cheerioTitle :: "(selector \<Rightarrow> jsstring list) \<Rightarrow> jsstring" where
  "cheerioTitle dollar =
     (let t = trim (concat (dollar ''title'')) in
      if t \<noteq> [] then t
      else
        let h = trim (concat (take 1 (dollar ''h1''))) in
        if h \<noteq> [] then h else str ''No Title'')"

text \<open>
  \<open>scrapeWithCheerio\<close> of the version with two fetchers: \<open>validateStatus\<close> makes
  \<open>axios.get\<close> throw on a status of 500 and above.
\<close>

definition scrapeWithCheerio ::
  "scraper_config \<Rightarrow> world \<Rightarrow> jsstring \<Rightarrow> fetch list \<Rightarrow> scrape_result option \<times> fetch list" where
  "scrapeWithCheerio cfg w u log =
     (let log' = log @ [Cheerio u] in
      case httpGet w u of
        Inl error \<Rightarrow> (None, log')
      | Inr resp \<Rightarrow>
          if \<not> status resp < 500 then (None, log')
          else if status resp = 403 \<or> status resp = 429 then (None, log')
          else
            let title = cheerioTitle (document resp);
                text' = longestText (document resp) contentSelectors [];
                text' = cleanedText cfg text'
            in
            if length text' > 100 then
              (Some \<lparr> scr_success = True,
                      scr_title = title,
                      scr_text = text',
                      scr_wordCount = length (split isSpace text'),
                      scr_method = str ''cheerio'' \<rparr>, log')
            else (None, log'))"

subsection \<open>The orchestrator\<close>

datatype scraped = Result scrape_result | ErrorResult jsstring

definition invalidUrlMessage :: jsstring where
  "invalidUrlMessage = str ''Invalid URL format. Please include http:// or https://''"

definition allFailedMessage :: jsstring where
  "allFailedMessage =
     str (''Could not extract content from this URL. The site likely uses advanced anti-bot ''
          @ ''protection (Cloudflare, PerimeterX, etc.) or requires authentication. ''
          @ ''Protected sites like LeetCode, LinkedIn, and Twitter may block automated access.'')"

text \<open>\<open>scrapeWebsite\<close> of the version with two fetchers.\<close>

definition scrapeWebsite ::
  "scraper_config \<Rightarrow> world \<Rightarrow> jsstring \<Rightarrow> fetch list \<Rightarrow> scraped \<times> fetch list" where
  "scrapeWebsite cfg w u log =
     (if \<not> isValidUrl (parseURL w) u then (ErrorResult invalidUrlMessage, log)
      else
        case scrapeWithPuppeteer cfg w u log of
          (Some result, log1) \<Rightarrow> (Result result, log1)
        | (None, log1) \<Rightarrow>
            (case scrapeWithCheerio cfg w u log1 of
               (Some result, log2) \<Rightarrow> (Result result, log2)
             | (None, log2) \<Rightarrow> (ErrorResult allFailedMessage, log2)))"


section \<open>The summarization client (utils/geminiClient.js)\<close>

















section \<open>Example inputs\<close>

text \<open>
  The defaults of \<open>SCRAPER_CONFIG\<close>, a text of \<open>n\<close> letters, a rendered page and a
  loaded document given by the text of each selector that matches, and a network that
  shows the page \<open>seen\<close> to the browser and the document \<open>got\<close> to the HTTP client.
\<close>

definition defaultConfig :: scraper_config where
  "defaultConfig = \<lparr> timeout = 30000, maxRetries = 3, maxTextLength = 10000 \<rparr>"

definition letters :: "nat \<Rightarrow> jsstring" where
  "letters n = replicate n 0x61"

definition renderedOf :: "(selector \<times> jsstring) list \<Rightarrow> rendered" where
  "renderedOf els =
     \<lparr> pageTitle = str ''Example'',
       querySelector = (\<lambda>s. map_option (\<lambda>t. Element (Some t)) (map_of els s)),
       bodyInnerText = map_of els ''body'',
       closeResolves = True \<rparr>"

definition loadedOf :: "(selector \<times> jsstring) list \<Rightarrow> selector \<Rightarrow> jsstring list" where
  "loadedOf els = (\<lambda>s. case map_of els s of None \<Rightarrow> [] | Some t \<Rightarrow> [t])"

definition articleUrl :: jsstring where
  "articleUrl = str ''https://example.com/article''"

definition parseExample :: "jsstring \<Rightarrow> url option" where
  "parseExample u =
     (if u = articleUrl then Some (URL (str ''https:''))
      else if u = str ''ftp://example.com/'' then Some (URL (str ''ftp:''))
      else None)"

definition exampleWorld ::
  "(selector \<times> jsstring) list \<Rightarrow> (selector \<times> jsstring) list \<Rightarrow> world" where
  "exampleWorld seen got =
     \<lparr> parseURL = parseExample,
       browse = (\<lambda>u. Inr (renderedOf seen)),
       httpGet = (\<lambda>u. Inr \<lparr> status = 200, document = loadedOf got \<rparr>) \<rparr>"





section \<open>Facts about the string operations\<close>

lemma splitRuns_nonempty: "splitRuns C cur s \<noteq> []"
  by (induction C cur s rule: splitRuns.induct) auto

lemma substring_from_0: "substring s 0 n = take (nat n) s"
  by (auto simp: substring_def Let_def min_def max_def)

lemma length_str: "length (str s) = length s"
  by (simp add: str_def)

lemma length_trim_le: "length (trim s) \<le> length s"
proof -
  have "length (dropWhile isSpace (rev (dropWhile isSpace s))) \<le> length (dropWhile isSpace s)"
    using length_dropWhile_le [of isSpace "rev (dropWhile isSpace s)"] by simp
  also have "\<dots> \<le> length s"
    by (rule length_dropWhile_le)
  finally show ?thesis by (simp add: trim_def)
qed


section \<open>Text processing: the claims\<close>

text \<open>
  C10. On the empty string \<open>extractMetadata\<close> reports one word (the split of the empty
  string on whitespace is the list of one empty piece), no sentence, no character and a
  reading time of \<open>1 min read\<close>; and the word count is not 0 on any text, because a
  split always yields at least one piece.
\<close>

theorem extractMetadata_empty_text:
  "extractMetadata now [] =
     \<lparr> wordCount = 1, sentenceCount = 0, characterCount = 0,
       readingTime = str ''1 min read'', timestamp = now \<rparr>
   \<and> wordCount (extractMetadata now' text') \<noteq> 0"
proof
  show "extractMetadata now [] =
     \<lparr> wordCount = 1, sentenceCount = 0, characterCount = 0,
       readingTime = str ''1 min read'', timestamp = now \<rparr>"
    by (simp add: extractMetadata_def split_def roundDiv200_def toString.simps str_def trim_def)
  show "wordCount (extractMetadata now' text') \<noteq> 0"
    by (simp add: extractMetadata_def split_def Let_def splitRuns_nonempty)
qed

theorem extractMetadata_empty_text_witness:
  "wordCount (extractMetadata (str ''2026-01-01T00:00:00.000Z'') []) = 1
   \<and> readingTime (extractMetadata (str ''2026-01-01T00:00:00.000Z'') []) = str ''1 min read''
   \<and> wordCount (extractMetadata [] (str '' a b '')) = 4"
proof -
  have "wordCount (extractMetadata [] (str '' a b '')) = 4"
    by (simp add: extractMetadata_def split_def str_def isSpace_def)
  then show ?thesis
    using extractMetadata_empty_text [of "str ''2026-01-01T00:00:00.000Z''" "[]" "str '' a b ''"]
    by simp
qed

text \<open>
  C9, as stated, fails: the \<open>timestamp\<close> of the metadata is the clock's reading at the
  call, so two calls on the same text, one millisecond apart, return different values.
\<close>

theorem extractMetadata_timestamp_counterexample:
  "extractMetadata (str ''2026-01-01T00:00:00.000Z'') (str ''Hello world.'')
   \<noteq> extractMetadata (str ''2026-01-01T00:00:00.001Z'') (str ''Hello world.'')"
  by (simp add: extractMetadata_def str_def Let_def)

text \<open>
  C9, amended. The word count, the sentence count, the character count and the reading
  time depend on the text alone; the timestamp is the clock's reading, and two calls on
  one text differ in nothing else.
\<close>

theorem extractMetadata_pure_but_timestamp:
  "wordCount (extractMetadata now1 s) = wordCount (extractMetadata now2 s)
   \<and> sentenceCount (extractMetadata now1 s) = sentenceCount (extractMetadata now2 s)
   \<and> characterCount (extractMetadata now1 s) = characterCount (extractMetadata now2 s)
   \<and> readingTime (extractMetadata now1 s) = readingTime (extractMetadata now2 s)
   \<and> timestamp (extractMetadata now1 s) = now1
   \<and> extractMetadata now1 s = (extractMetadata now2 s) \<lparr> timestamp := now1 \<rparr>"
  by (simp add: extractMetadata_def Let_def)

theorem extractMetadata_pure_but_timestamp_witness:
  "wordCount (extractMetadata (str ''2026-01-01T00:00:00.000Z'') (str ''Hello world.''))
     = wordCount (extractMetadata (str ''2026-01-01T00:00:00.001Z'') (str ''Hello world.''))
   \<and> timestamp (extractMetadata (str ''2026-01-01T00:00:00.000Z'') (str ''Hello world.''))
     = str ''2026-01-01T00:00:00.000Z''"
  using extractMetadata_pure_but_timestamp
    [of "str ''2026-01-01T00:00:00.000Z''" "str ''Hello world.''"
        "str ''2026-01-01T00:00:00.001Z''"]
  by simp

text \<open>
  C8 at the input \<open>a @ b\<close>: the whitespace runs are collapsed before the characters
  outside the allow-list are deleted, so deleting the \<open>@\<close> leaves the two spaces around
  it side by side; the output \<open>a  b\<close> has a run of two spaces, and cleaning it again
  gives the different string \<open>a b\<close>.
\<close>

theorem cleanText_double_space:
  "cleanText (str ''a @ b'') = str ''a  b''
   \<and> cleanText (cleanText (str ''a @ b'')) = str ''a b''"
  by (simp add: cleanText_def str_def isSpace_def removeOutside_def allowedChar_def
      isWord_def trim_def)


section \<open>Facts about the retry loop\<close>














section \<open>The summarization client: the claims\<close>









section \<open>Facts about the fetchers\<close>

lemma replaceRuns_none: "\<forall>c\<in>set s. \<not> C c \<Longrightarrow> replaceRuns C r s = s"
  by (induction s) auto

lemma dropWhile_none: "\<forall>c\<in>set s. \<not> C c \<Longrightarrow> dropWhile C s = s"
  by (cases s) auto

lemma trim_none: "\<forall>c\<in>set s. \<not> isSpace c \<Longrightarrow> trim s = s"
  by (simp add: trim_def dropWhile_none)

lemma cleanedText_letters:
  "cleanedText cfg (letters n) = take (nat (maxTextLength cfg)) (letters n)"
proof -
  have "\<forall>c\<in>set (letters n). \<not> isSpace c"
    by (auto simp: letters_def isSpace_def)
  then show ?thesis
    by (simp add: cleanedText_def substring_from_0 replaceRuns_none trim_none)
qed


lemma longestText_Cons:
  "longestText d (s # ss) acc
   = longestText d ss
       (if d s \<noteq> [] \<and> length acc < length (concat (d s)) then concat (d s) else acc)"
  by (simp add: Let_def)

lemma longestText_ge: "length acc \<le> length (longestText d ss acc)"
proof (induction ss arbitrary: acc)
  case Nil
  show ?case by simp
next
  case (Cons s ss)
  let ?acc' = "if d s \<noteq> [] \<and> length acc < length (concat (d s)) then concat (d s) else acc"
  have "length acc \<le> length ?acc'" by simp
  also have "\<dots> \<le> length (longestText d ss ?acc')" by (rule Cons.IH)
  finally show ?case by (simp only: longestText_Cons)
qed

lemma longestText_max:
  "s \<in> set ss \<Longrightarrow> d s \<noteq> [] \<Longrightarrow> length (concat (d s)) \<le> length (longestText d ss acc)"
proof (induction ss arbitrary: acc)
  case Nil
  then show ?case by simp
next
  case (Cons x ss)
  let ?acc' = "if d x \<noteq> [] \<and> length acc < length (concat (d x)) then concat (d x) else acc"
  show ?case
  proof (cases "s = x")
    case True
    with Cons.prems have "length (concat (d s)) \<le> length ?acc'" by simp
    also have "\<dots> \<le> length (longestText d ss ?acc')" by (rule longestText_ge)
    finally show ?thesis by (simp only: longestText_Cons)
  next
    case False
    with Cons.prems have "s \<in> set ss" by simp
    from Cons.IH [OF this Cons.prems(2)] show ?thesis by (simp only: longestText_Cons)
  qed
qed

lemma longestText_choice:
  "longestText d ss acc = acc
   \<or> (\<exists>s\<in>set ss. d s \<noteq> [] \<and> longestText d ss acc = concat (d s))"
proof (induction ss arbitrary: acc)
  case Nil
  show ?case by simp
next
  case (Cons x ss)
  let ?acc' = "if d x \<noteq> [] \<and> length acc < length (concat (d x)) then concat (d x) else acc"
  have step: "longestText d (x # ss) acc = longestText d ss ?acc'"
    by (rule longestText_Cons)
  from Cons.IH [of ?acc'] show ?case
  proof
    assume "longestText d ss ?acc' = ?acc'"
    then have "longestText d (x # ss) acc = ?acc'" using step by simp
    then show ?thesis by (cases "d x \<noteq> [] \<and> length acc < length (concat (d x))") auto
  next
    assume "\<exists>s\<in>set ss. d s \<noteq> [] \<and> longestText d ss ?acc' = concat (d s)"
    then obtain s where "s \<in> set ss" "d s \<noteq> []" "longestText d ss ?acc' = concat (d s)"
      by blast
    then have "s \<in> set (x # ss) \<and> d s \<noteq> [] \<and> longestText d (x # ss) acc = concat (d s)"
      using step by simp
    then show ?thesis by blast
  qed
qed

lemma firstOver200_None: "firstOver200 doc ss = None \<longleftrightarrow> (\<forall>s\<in>set ss. over200 doc s = None)"
  by (induction ss) (auto split: option.splits)

lemma firstOver200_first:
  "\<lbrakk> i < length ss; over200 doc (ss ! i) = Some t; \<forall>j<i. over200 doc (ss ! j) = None \<rbrakk>
   \<Longrightarrow> firstOver200 doc ss = Some t"
proof (induction ss arbitrary: i)
  case Nil
  then show ?case by simp
next
  case (Cons s ss)
  show ?case
  proof (cases i)
    case 0
    with Cons.prems show ?thesis by simp
  next
    case (Suc i')
    with Cons.prems have "over200 doc s = None" by auto
    moreover have "firstOver200 doc ss = Some t"
    proof (rule Cons.IH [of i'])
      show "i' < length ss" using Cons.prems(1) Suc by simp
      show "over200 doc (ss ! i') = Some t" using Cons.prems(2) Suc by simp
      show "\<forall>j<i'. over200 doc (ss ! j) = None"
      proof (intro allI impI)
        fix j assume "j < i'"
        then have "Suc j < i" using Suc by simp
        with Cons.prems(3) have "over200 doc ((s # ss) ! Suc j) = None" by blast
        then show "over200 doc (ss ! j) = None" by simp
      qed
    qed
    ultimately show ?thesis by simp
  qed
qed

lemma over200_Some:
  "over200 doc s = Some t \<longleftrightarrow> querySelector doc s = Some (Element (Some t)) \<and> 200 < length t"
proof (cases "querySelector doc s")
  case None
  then show ?thesis by (simp add: over200_def)
next
  case (Some a)
  obtain it where a: "a = Element it" by (cases a)
  show ?thesis
  proof (cases it)
    case None
    with Some a show ?thesis by (simp add: over200_def)
  next
    case (Some t')
    with \<open>querySelector doc s = Some a\<close> a show ?thesis by (auto simp: over200_def)
  qed
qed

lemma over200_None:
  "over200 doc s = None \<longleftrightarrow>
   (\<forall>t. querySelector doc s = Some (Element (Some t)) \<longrightarrow> length t \<le> 200)"
proof -
  have "over200 doc s = None \<longleftrightarrow> (\<forall>t. over200 doc s \<noteq> Some t)" by auto
  also have "\<dots> \<longleftrightarrow> (\<forall>t. querySelector doc s = Some (Element (Some t)) \<longrightarrow> length t \<le> 200)"
    unfolding over200_Some by (auto simp: not_less)
  finally show ?thesis .
qed

lemma scrapeWithPuppeteer_log: "snd (scrapeWithPuppeteer cfg w u log) = log @ [Puppeteer u]"
  by (simp add: scrapeWithPuppeteer_def Let_def split: sum.splits)

lemma scrapeWithCheerio_log: "snd (scrapeWithCheerio cfg w u log) = log @ [Cheerio u]"
  by (simp add: scrapeWithCheerio_def Let_def split: sum.splits)

lemma scrapeWithPuppeteer_Some:
  "fst (scrapeWithPuppeteer cfg w u log) = Some r \<longleftrightarrow>
   (\<exists>doc t. browse w u = Inr doc \<and> extractText doc = Inr t \<and> closeResolves doc
      \<and> 100 < length (cleanedText cfg t)
      \<and> r = \<lparr> scr_success = True,
              scr_title = (if pageTitle doc \<noteq> [] then pageTitle doc else str ''Extracted Content''),
              scr_text = cleanedText cfg t,
              scr_wordCount = length (split isSpace (cleanedText cfg t)),
              scr_method = str ''puppeteer-stealth'' \<rparr>)"
proof (cases "browse w u")
  case (Inl e)
  then show ?thesis by (simp add: scrapeWithPuppeteer_def)
next
  case doc: (Inr doc)
  show ?thesis
  proof (cases "extractText doc")
    case (Inl e)
    with doc show ?thesis by (simp add: scrapeWithPuppeteer_def)
  next
    case (Inr t)
    with doc show ?thesis
      by (cases "closeResolves doc"; cases "100 < length (cleanedText cfg t)")
         (simp_all add: scrapeWithPuppeteer_def Let_def eq_commute [of _ r])
  qed
qed

lemma scrapeWithCheerio_Some:
  "fst (scrapeWithCheerio cfg w u log) = Some r \<longleftrightarrow>
   (\<exists>resp. httpGet w u = Inr resp \<and> status resp < 500 \<and> status resp \<noteq> 403 \<and> status resp \<noteq> 429
      \<and> 100 < length (cleanedText cfg (longestText (document resp) contentSelectors []))
      \<and> r = \<lparr> scr_success = True,
              scr_title = cheerioTitle (document resp),
              scr_text = cleanedText cfg (longestText (document resp) contentSelectors []),
              scr_wordCount =
                length (split isSpace
                  (cleanedText cfg (longestText (document resp) contentSelectors []))),
              scr_method = str ''cheerio'' \<rparr>)"
proof (cases "httpGet w u")
  case (Inl e)
  then show ?thesis by (simp add: scrapeWithCheerio_def)
next
  case (Inr resp)
  then show ?thesis
    by (cases "status resp < 500"; cases "status resp = 403"; cases "status resp = 429";
        cases "100 < length (cleanedText cfg (longestText (document resp) contentSelectors []))")
       (simp_all add: scrapeWithCheerio_def Let_def eq_commute [of _ r])
qed

lemma scrapeWithPuppeteer_None:
  "fst (scrapeWithPuppeteer cfg w u log) = None \<longleftrightarrow>
   \<not> (\<exists>doc t. browse w u = Inr doc \<and> extractText doc = Inr t \<and> closeResolves doc
      \<and> 100 < length (cleanedText cfg t))"
proof -
  have "fst (scrapeWithPuppeteer cfg w u log) = None
        \<longleftrightarrow> (\<forall>r. fst (scrapeWithPuppeteer cfg w u log) \<noteq> Some r)"
    by auto
  then show ?thesis unfolding scrapeWithPuppeteer_Some by blast
qed

lemma scrapeWithCheerio_None:
  "fst (scrapeWithCheerio cfg w u log) = None \<longleftrightarrow>
   \<not> (\<exists>resp. httpGet w u = Inr resp \<and> status resp < 500 \<and> status resp \<noteq> 403 \<and> status resp \<noteq> 429
      \<and> 100 < length (cleanedText cfg (longestText (document resp) contentSelectors [])))"
proof -
  have "fst (scrapeWithCheerio cfg w u log) = None
        \<longleftrightarrow> (\<forall>r. fst (scrapeWithCheerio cfg w u log) \<noteq> Some r)"
    by auto
  then show ?thesis unfolding scrapeWithCheerio_Some by blast
qed

lemma messages_differ: "invalidUrlMessage \<noteq> allFailedMessage"
  by (simp add: invalidUrlMessage_def allFailedMessage_def str_def)

lemma length_letters: "length (letters n) = n"
  by (simp add: letters_def)

lemma cleanedText_default_letters:
  "n \<le> 10000 \<Longrightarrow> cleanedText defaultConfig (letters n) = letters n"
  by (simp add: cleanedText_letters defaultConfig_def length_letters)

lemma valid_articleUrl: "isValidUrl (parseURL (exampleWorld seen got)) articleUrl"
  by (simp add: isValidUrl_def exampleWorld_def parseExample_def)

lemma invalid_ftp: "\<not> isValidUrl (parseURL (exampleWorld seen got)) (str ''ftp://example.com/'')"
  by (simp add: isValidUrl_def exampleWorld_def parseExample_def articleUrl_def str_def)

lemma invalid_text: "\<not> isValidUrl (parseURL (exampleWorld seen got)) (str ''not a url'')"
  by (simp add: isValidUrl_def exampleWorld_def parseExample_def articleUrl_def str_def)

lemma extractText_body_only:
  "extractText (renderedOf [(''body'', letters n)]) = Inr (letters n)"
  by (simp add: extractText_def renderedOf_def mainSelectors_def over200_def length_letters)

lemma extractText_nothing:
  "extractText (renderedOf []) = Inl (Error (str ''Cannot read properties of null''))"
  by (simp add: extractText_def renderedOf_def mainSelectors_def over200_def)

lemma longestText_body_only:
  "longestText (loadedOf [(''body'', letters n)]) contentSelectors [] = letters n"
  by (auto simp: loadedOf_def contentSelectors_def length_letters Let_def)

lemma longestText_nothing: "longestText (loadedOf []) contentSelectors [] = []"
  by (simp add: loadedOf_def contentSelectors_def)

lemma cleanedText_empty: "cleanedText cfg [] = []"
  by (simp add: cleanedText_def substring_from_0 trim_def)

lemma renderedOf_closes: "closeResolves (renderedOf els)"
  by (simp add: renderedOf_def)

lemma rendered_150:
  "\<exists>r. fst (scrapeWithPuppeteer defaultConfig (exampleWorld [(''body'', letters 150)] got)
             articleUrl log) = Some r
       \<and> scr_text r = letters 150 \<and> scr_method r = str ''puppeteer-stealth''"
  unfolding scrapeWithPuppeteer_Some
  by (simp add: exampleWorld_def extractText_body_only cleanedText_default_letters
      length_letters renderedOf_closes)

lemma rendered_nothing:
  "fst (scrapeWithPuppeteer defaultConfig (exampleWorld [] got) articleUrl log) = None"
  unfolding scrapeWithPuppeteer_None
  by (simp add: exampleWorld_def extractText_nothing)

lemma rendered_50:
  "fst (scrapeWithPuppeteer defaultConfig (exampleWorld [(''body'', letters 50)] got)
          articleUrl log) = None"
  unfolding scrapeWithPuppeteer_None
  by (simp add: exampleWorld_def extractText_body_only cleanedText_default_letters
      length_letters)

lemma loaded_150:
  "\<exists>r. fst (scrapeWithCheerio defaultConfig (exampleWorld seen [(''body'', letters 150)])
             articleUrl log) = Some r
       \<and> scr_text r = letters 150 \<and> scr_method r = str ''cheerio''"
  unfolding scrapeWithCheerio_Some
  by (simp add: exampleWorld_def longestText_body_only cleanedText_default_letters
      length_letters)

lemma loaded_50:
  "fst (scrapeWithCheerio defaultConfig (exampleWorld seen [(''body'', letters 50)])
          articleUrl log) = None"
  unfolding scrapeWithCheerio_None
  by (simp add: exampleWorld_def longestText_body_only cleanedText_default_letters
      length_letters)

lemma loaded_nothing:
  "fst (scrapeWithCheerio defaultConfig (exampleWorld seen []) articleUrl log) = None"
  unfolding scrapeWithCheerio_None
  by (simp add: exampleWorld_def longestText_nothing cleanedText_empty)


section \<open>Scraping: the claims\<close>

text \<open>
  C1. \<open>scrapeWebsite\<close> validates the URL first, and a URL is valid exactly when it
  parses and its protocol is \<open>http:\<close> or \<open>https:\<close>. On an invalid URL it returns the
  error about the URL format and attempts no fetch: the log of fetches is unchanged. On
  a valid URL it attempts the rendering fetcher first and returns its result when there
  is one, having attempted nothing else; only when that fetcher returned null does it
  attempt the lightweight fetcher, whose result it returns when there is one; and it
  returns the error that the content could not be extracted exactly when both returned
  null.
\<close>

theorem scrapeWebsite_order:
  "(isValidUrl (parseURL w) u \<longleftrightarrow>
      (\<exists>urlObj. parseURL w u = Some urlObj
         \<and> (protocol urlObj = str ''http:'' \<or> protocol urlObj = str ''https:'')))
   \<and> (\<not> isValidUrl (parseURL w) u \<longrightarrow>
        scrapeWebsite cfg w u log = (ErrorResult invalidUrlMessage, log))
   \<and> (isValidUrl (parseURL w) u \<longrightarrow>
        (\<forall>r. fst (scrapeWithPuppeteer cfg w u log) = Some r \<longrightarrow>
           scrapeWebsite cfg w u log = (Result r, log @ [Puppeteer u]))
        \<and> (fst (scrapeWithPuppeteer cfg w u log) = None \<longrightarrow>
             (\<forall>r. fst (scrapeWithCheerio cfg w u (log @ [Puppeteer u])) = Some r \<longrightarrow>
                scrapeWebsite cfg w u log = (Result r, log @ [Puppeteer u, Cheerio u]))
             \<and> (fst (scrapeWithCheerio cfg w u (log @ [Puppeteer u])) = None \<longrightarrow>
                  scrapeWebsite cfg w u log
                  = (ErrorResult allFailedMessage, log @ [Puppeteer u, Cheerio u]))))
   \<and> (fst (scrapeWebsite cfg w u log) = ErrorResult allFailedMessage \<longrightarrow>
        isValidUrl (parseURL w) u
        \<and> fst (scrapeWithPuppeteer cfg w u log) = None
        \<and> fst (scrapeWithCheerio cfg w u (log @ [Puppeteer u])) = None)"
proof (intro conjI)
  obtain p lp where P: "scrapeWithPuppeteer cfg w u log = (p, lp)"
    by (cases "scrapeWithPuppeteer cfg w u log")
  have lp: "lp = log @ [Puppeteer u]"
    using scrapeWithPuppeteer_log [of cfg w u log] P by simp
  obtain c lc where C: "scrapeWithCheerio cfg w u (log @ [Puppeteer u]) = (c, lc)"
    by (cases "scrapeWithCheerio cfg w u (log @ [Puppeteer u])")
  have lc: "lc = log @ [Puppeteer u, Cheerio u]"
    using scrapeWithCheerio_log [of cfg w u "log @ [Puppeteer u]"] C by simp
  show "isValidUrl (parseURL w) u \<longleftrightarrow>
      (\<exists>urlObj. parseURL w u = Some urlObj
         \<and> (protocol urlObj = str ''http:'' \<or> protocol urlObj = str ''https:''))"
    by (simp add: isValidUrl_def split: option.splits)
  show "\<not> isValidUrl (parseURL w) u \<longrightarrow>
        scrapeWebsite cfg w u log = (ErrorResult invalidUrlMessage, log)"
    by (simp add: scrapeWebsite_def)
  show "isValidUrl (parseURL w) u \<longrightarrow>
        (\<forall>r. fst (scrapeWithPuppeteer cfg w u log) = Some r \<longrightarrow>
           scrapeWebsite cfg w u log = (Result r, log @ [Puppeteer u]))
        \<and> (fst (scrapeWithPuppeteer cfg w u log) = None \<longrightarrow>
             (\<forall>r. fst (scrapeWithCheerio cfg w u (log @ [Puppeteer u])) = Some r \<longrightarrow>
                scrapeWebsite cfg w u log = (Result r, log @ [Puppeteer u, Cheerio u]))
             \<and> (fst (scrapeWithCheerio cfg w u (log @ [Puppeteer u])) = None \<longrightarrow>
                  scrapeWebsite cfg w u log
                  = (ErrorResult allFailedMessage, log @ [Puppeteer u, Cheerio u])))"
    using P C lp lc by (auto simp: scrapeWebsite_def)
  show "fst (scrapeWebsite cfg w u log) = ErrorResult allFailedMessage \<longrightarrow>
        isValidUrl (parseURL w) u
        \<and> fst (scrapeWithPuppeteer cfg w u log) = None
        \<and> fst (scrapeWithCheerio cfg w u (log @ [Puppeteer u])) = None"
    using P C lp lc messages_differ
    by (cases p; cases c) (auto simp: scrapeWebsite_def split: if_splits)
qed

theorem scrapeWebsite_order_witness:
  "scrapeWebsite defaultConfig (exampleWorld [] []) (str ''not a url'') []
     = (ErrorResult invalidUrlMessage, [])
   \<and> scrapeWebsite defaultConfig (exampleWorld [] []) (str ''ftp://example.com/'') []
     = (ErrorResult invalidUrlMessage, [])
   \<and> (\<exists>r. scrapeWebsite defaultConfig (exampleWorld [(''body'', letters 150)] []) articleUrl []
            = (Result r, [Puppeteer articleUrl])
          \<and> scr_method r = str ''puppeteer-stealth'')
   \<and> (\<exists>r. scrapeWebsite defaultConfig (exampleWorld [] [(''body'', letters 150)]) articleUrl []
            = (Result r, [Puppeteer articleUrl, Cheerio articleUrl])
          \<and> scr_method r = str ''cheerio'')
   \<and> scrapeWebsite defaultConfig (exampleWorld [] []) articleUrl []
     = (ErrorResult allFailedMessage, [Puppeteer articleUrl, Cheerio articleUrl])"
proof (intro conjI)
  show "scrapeWebsite defaultConfig (exampleWorld [] []) (str ''not a url'') []
     = (ErrorResult invalidUrlMessage, [])"
    using scrapeWebsite_order [of "exampleWorld [] []" "str ''not a url''" defaultConfig "[]"]
      invalid_text [of "[]" "[]"]
    by blast
  show "scrapeWebsite defaultConfig (exampleWorld [] []) (str ''ftp://example.com/'') []
     = (ErrorResult invalidUrlMessage, [])"
    using scrapeWebsite_order
        [of "exampleWorld [] []" "str ''ftp://example.com/''" defaultConfig "[]"]
      invalid_ftp [of "[]" "[]"]
    by blast
  show "\<exists>r. scrapeWebsite defaultConfig (exampleWorld [(''body'', letters 150)] []) articleUrl []
            = (Result r, [Puppeteer articleUrl])
          \<and> scr_method r = str ''puppeteer-stealth''"
  proof -
    from rendered_150 [of "[]" "[]"] obtain r where
      r: "fst (scrapeWithPuppeteer defaultConfig (exampleWorld [(''body'', letters 150)] [])
                articleUrl []) = Some r"
         "scr_method r = str ''puppeteer-stealth''"
      by blast
    from scrapeWebsite_order
        [of "exampleWorld [(''body'', letters 150)] []" articleUrl defaultConfig "[]"]
      valid_articleUrl [of "[(''body'', letters 150)]" "[]"] r(1)
    have "scrapeWebsite defaultConfig (exampleWorld [(''body'', letters 150)] []) articleUrl []
          = (Result r, [] @ [Puppeteer articleUrl])"
      by blast
    with r(2) show ?thesis by simp
  qed
  show "\<exists>r. scrapeWebsite defaultConfig (exampleWorld [] [(''body'', letters 150)]) articleUrl []
            = (Result r, [Puppeteer articleUrl, Cheerio articleUrl])
          \<and> scr_method r = str ''cheerio''"
  proof -
    from loaded_150 [of "[]" "[] @ [Puppeteer articleUrl]"] obtain r where
      r: "fst (scrapeWithCheerio defaultConfig (exampleWorld [] [(''body'', letters 150)])
                articleUrl ([] @ [Puppeteer articleUrl])) = Some r"
         "scr_method r = str ''cheerio''"
      by blast
    from scrapeWebsite_order
        [of "exampleWorld [] [(''body'', letters 150)]" articleUrl defaultConfig "[]"]
      valid_articleUrl [of "[]" "[(''body'', letters 150)]"]
      rendered_nothing [of "[(''body'', letters 150)]" "[]"] r(1)
    have "scrapeWebsite defaultConfig (exampleWorld [] [(''body'', letters 150)]) articleUrl []
          = (Result r, [] @ [Puppeteer articleUrl, Cheerio articleUrl])"
      by blast
    with r(2) show ?thesis by simp
  qed
  show "scrapeWebsite defaultConfig (exampleWorld [] []) articleUrl []
     = (ErrorResult allFailedMessage, [Puppeteer articleUrl, Cheerio articleUrl])"
  proof -
    from scrapeWebsite_order [of "exampleWorld [] []" articleUrl defaultConfig "[]"]
      valid_articleUrl [of "[]" "[]"] rendered_nothing [of "[]" "[]"]
      loaded_nothing [of "[]" "[] @ [Puppeteer articleUrl]"]
    have "scrapeWebsite defaultConfig (exampleWorld [] []) articleUrl []
          = (ErrorResult allFailedMessage, [] @ [Puppeteer articleUrl, Cheerio articleUrl])"
      by blast
    then show ?thesis by simp
  qed
qed

text \<open>
  C4. Each fetcher returns a result exactly when its stages succeeded and the text it
  cleaned and truncated is longer than 100 characters; the text of a result is that
  cleaned text and is longer than 100; and when the cleaned text has 100 characters or
  fewer the fetcher returns null.
\<close>

theorem fetchers_need_more_than_100:
  "(fst (scrapeWithPuppeteer cfg w u log) \<noteq> None \<longleftrightarrow>
      (\<exists>doc t. browse w u = Inr doc \<and> extractText doc = Inr t \<and> closeResolves doc
         \<and> 100 < length (cleanedText cfg t)))
   \<and> (fst (scrapeWithPuppeteer cfg w u log) = Some r \<longrightarrow>
        100 < length (scr_text r)
        \<and> (\<exists>doc t. browse w u = Inr doc \<and> extractText doc = Inr t
              \<and> scr_text r = cleanedText cfg t))
   \<and> (browse w u = Inr doc \<and> extractText doc = Inr t \<and> length (cleanedText cfg t) \<le> 100 \<longrightarrow>
        fst (scrapeWithPuppeteer cfg w u log) = None)
   \<and> (fst (scrapeWithCheerio cfg w u log) \<noteq> None \<longleftrightarrow>
        (\<exists>resp. httpGet w u = Inr resp
           \<and> status resp < 500 \<and> status resp \<noteq> 403 \<and> status resp \<noteq> 429
           \<and> 100 < length (cleanedText cfg (longestText (document resp) contentSelectors []))))
   \<and> (fst (scrapeWithCheerio cfg w u log) = Some r' \<longrightarrow>
        100 < length (scr_text r')
        \<and> (\<exists>resp. httpGet w u = Inr resp
              \<and> scr_text r' = cleanedText cfg (longestText (document resp) contentSelectors [])))
   \<and> (httpGet w u = Inr resp
        \<and> length (cleanedText cfg (longestText (document resp) contentSelectors [])) \<le> 100 \<longrightarrow>
        fst (scrapeWithCheerio cfg w u log) = None)"
proof (intro conjI)
  show "fst (scrapeWithPuppeteer cfg w u log) \<noteq> None \<longleftrightarrow>
      (\<exists>doc t. browse w u = Inr doc \<and> extractText doc = Inr t \<and> closeResolves doc
         \<and> 100 < length (cleanedText cfg t))"
    unfolding scrapeWithPuppeteer_None by blast
  show "fst (scrapeWithPuppeteer cfg w u log) = Some r \<longrightarrow>
        100 < length (scr_text r)
        \<and> (\<exists>doc t. browse w u = Inr doc \<and> extractText doc = Inr t
              \<and> scr_text r = cleanedText cfg t)"
  proof
    assume "fst (scrapeWithPuppeteer cfg w u log) = Some r"
    then obtain doc t where "browse w u = Inr doc" "extractText doc = Inr t"
      "100 < length (cleanedText cfg t)" "scr_text r = cleanedText cfg t"
      unfolding scrapeWithPuppeteer_Some by auto
    then show "100 < length (scr_text r)
        \<and> (\<exists>doc t. browse w u = Inr doc \<and> extractText doc = Inr t
              \<and> scr_text r = cleanedText cfg t)"
      by auto
  qed
  show "browse w u = Inr doc \<and> extractText doc = Inr t \<and> length (cleanedText cfg t) \<le> 100 \<longrightarrow>
        fst (scrapeWithPuppeteer cfg w u log) = None"
    unfolding scrapeWithPuppeteer_None by auto
  show "fst (scrapeWithCheerio cfg w u log) \<noteq> None \<longleftrightarrow>
        (\<exists>resp. httpGet w u = Inr resp
           \<and> status resp < 500 \<and> status resp \<noteq> 403 \<and> status resp \<noteq> 429
           \<and> 100 < length (cleanedText cfg (longestText (document resp) contentSelectors [])))"
    unfolding scrapeWithCheerio_None by blast
  show "fst (scrapeWithCheerio cfg w u log) = Some r' \<longrightarrow>
        100 < length (scr_text r')
        \<and> (\<exists>resp. httpGet w u = Inr resp
              \<and> scr_text r' = cleanedText cfg (longestText (document resp) contentSelectors []))"
  proof
    assume "fst (scrapeWithCheerio cfg w u log) = Some r'"
    then obtain resp where "httpGet w u = Inr resp"
      "100 < length (cleanedText cfg (longestText (document resp) contentSelectors []))"
      "scr_text r' = cleanedText cfg (longestText (document resp) contentSelectors [])"
      unfolding scrapeWithCheerio_Some by auto
    then show "100 < length (scr_text r')
        \<and> (\<exists>resp. httpGet w u = Inr resp
              \<and> scr_text r' = cleanedText cfg (longestText (document resp) contentSelectors []))"
      by auto
  qed
  show "httpGet w u = Inr resp
        \<and> length (cleanedText cfg (longestText (document resp) contentSelectors [])) \<le> 100 \<longrightarrow>
        fst (scrapeWithCheerio cfg w u log) = None"
    unfolding scrapeWithCheerio_None by auto
qed

theorem fetchers_need_more_than_100_witness:
  "(\<exists>r. fst (scrapeWithPuppeteer defaultConfig (exampleWorld [(''body'', letters 150)] [])
             articleUrl []) = Some r \<and> 100 < length (scr_text r))
   \<and> fst (scrapeWithPuppeteer defaultConfig (exampleWorld [(''body'', letters 50)] [])
            articleUrl []) = None
   \<and> (\<exists>r. fst (scrapeWithCheerio defaultConfig (exampleWorld [] [(''body'', letters 150)])
             articleUrl []) = Some r \<and> 100 < length (scr_text r))
   \<and> fst (scrapeWithCheerio defaultConfig (exampleWorld [] [(''body'', letters 50)])
            articleUrl []) = None"
proof (intro conjI)
  let ?c = defaultConfig
  show "\<exists>r. fst (scrapeWithPuppeteer ?c (exampleWorld [(''body'', letters 150)] [])
             articleUrl []) = Some r \<and> 100 < length (scr_text r)"
  proof -
    from rendered_150 [of "[]" "[]"] obtain r where
      r: "fst (scrapeWithPuppeteer ?c (exampleWorld [(''body'', letters 150)] [])
                articleUrl []) = Some r"
      by blast
    with fetchers_need_more_than_100
      [of ?c "exampleWorld [(''body'', letters 150)] []" articleUrl "[]" r]
    show ?thesis by blast
  qed
  show "\<exists>r. fst (scrapeWithCheerio ?c (exampleWorld [] [(''body'', letters 150)])
             articleUrl []) = Some r \<and> 100 < length (scr_text r)"
  proof -
    from loaded_150 [of "[]" "[]"] obtain r where
      r: "fst (scrapeWithCheerio ?c (exampleWorld [] [(''body'', letters 150)])
                articleUrl []) = Some r"
      by blast
    with fetchers_need_more_than_100
      [of ?c "exampleWorld [] [(''body'', letters 150)]" articleUrl "[]" _ _ _ r]
    show ?thesis by blast
  qed
  have b: "browse (exampleWorld [(''body'', letters 50)] []) articleUrl
             = Inr (renderedOf [(''body'', letters 50)])
           \<and> extractText (renderedOf [(''body'', letters 50)]) = Inr (letters 50)
           \<and> length (cleanedText ?c (letters 50)) \<le> 100"
    by (simp add: exampleWorld_def extractText_body_only cleanedText_default_letters
        length_letters)
  from fetchers_need_more_than_100
    [of ?c "exampleWorld [(''body'', letters 50)] []" articleUrl "[]" _
        "renderedOf [(''body'', letters 50)]" "letters 50"] b
  show "fst (scrapeWithPuppeteer ?c (exampleWorld [(''body'', letters 50)] [])
            articleUrl []) = None"
    by blast
  have g: "httpGet (exampleWorld [] [(''body'', letters 50)]) articleUrl
             = Inr \<lparr> status = 200, document = loadedOf [(''body'', letters 50)] \<rparr>
           \<and> length (cleanedText ?c
                (longestText (document \<lparr> status = 200, document = loadedOf [(''body'', letters 50)] \<rparr>)
                   contentSelectors [])) \<le> 100"
    by (simp add: exampleWorld_def longestText_body_only cleanedText_default_letters
        length_letters)
  from fetchers_need_more_than_100
    [of ?c "exampleWorld [] [(''body'', letters 50)]" articleUrl "[]" _ _ _ _
        "\<lparr> status = 200, document = loadedOf [(''body'', letters 50)] \<rparr>"] g
  show "fst (scrapeWithCheerio ?c (exampleWorld [] [(''body'', letters 50)])
            articleUrl []) = None"
    by blast
qed

text \<open>
  C5. The text the lightweight fetcher selects is at least as long as the text of every
  selector of its list that matches, and when some selector matches it is the text of a
  matching selector: the longest candidate, not the first. With a \<open>main\<close> of 50
  characters and a \<open>body\<close> of 500, the only matches, it is the text of the body.
\<close>

theorem cheerio_keeps_longest:
  "(\<forall>s\<in>set contentSelectors. dollar s \<noteq> [] \<longrightarrow>
      length (concat (dollar s)) \<le> length (longestText dollar contentSelectors []))
   \<and> ((\<exists>s\<in>set contentSelectors. dollar s \<noteq> []) \<longrightarrow>
        (\<exists>s\<in>set contentSelectors. dollar s \<noteq> []
           \<and> longestText dollar contentSelectors [] = concat (dollar s)))
   \<and> ((\<forall>s\<in>set contentSelectors. s \<noteq> ''main'' \<and> s \<noteq> ''body'' \<longrightarrow> dollar s = [])
        \<and> dollar ''main'' = [m] \<and> dollar ''body'' = [b] \<and> length m = 50 \<and> length b = 500 \<longrightarrow>
        longestText dollar contentSelectors [] = b)"
proof (intro conjI)
  let ?T = "longestText dollar contentSelectors []"
  show max: "\<forall>s\<in>set contentSelectors. dollar s \<noteq> [] \<longrightarrow> length (concat (dollar s)) \<le> length ?T"
    using longestText_max [of _ contentSelectors dollar "[]"] by blast
  show "(\<exists>s\<in>set contentSelectors. dollar s \<noteq> []) \<longrightarrow>
        (\<exists>s\<in>set contentSelectors. dollar s \<noteq> [] \<and> ?T = concat (dollar s))"
  proof
    assume "\<exists>s\<in>set contentSelectors. dollar s \<noteq> []"
    then obtain s where s: "s \<in> set contentSelectors" "dollar s \<noteq> []" by blast
    from longestText_choice [of dollar contentSelectors "[]"]
    show "\<exists>s\<in>set contentSelectors. dollar s \<noteq> [] \<and> ?T = concat (dollar s)"
    proof
      assume e: "?T = []"
      with max s have "concat (dollar s) = []" by fastforce
      with e s show ?thesis by auto
    next
      assume "\<exists>s\<in>set contentSelectors. dollar s \<noteq> [] \<and> ?T = concat (dollar s)"
      then show ?thesis .
    qed
  qed
  show "(\<forall>s\<in>set contentSelectors. s \<noteq> ''main'' \<and> s \<noteq> ''body'' \<longrightarrow> dollar s = [])
        \<and> dollar ''main'' = [m] \<and> dollar ''body'' = [b] \<and> length m = 50 \<and> length b = 500 \<longrightarrow>
        ?T = b"
    by (simp add: contentSelectors_def)
qed

theorem cheerio_keeps_longest_witness:
  "longestText (loadedOf [(''main'', letters 50), (''body'', letters 500)]) contentSelectors []
   = letters 500"
proof -
  let ?d = "loadedOf [(''main'', letters 50), (''body'', letters 500)]"
  have "(\<forall>s\<in>set contentSelectors. s \<noteq> ''main'' \<and> s \<noteq> ''body'' \<longrightarrow> ?d s = [])
        \<and> ?d ''main'' = [letters 50] \<and> ?d ''body'' = [letters 500]
        \<and> length (letters 50) = 50 \<and> length (letters 500) = 500"
    by (simp add: loadedOf_def length_letters)
  with cheerio_keeps_longest [of ?d "letters 50" "letters 500"] show ?thesis by blast
qed

text \<open>
  C6. The rendering fetcher extracts the inner text of the first selector of its list
  that matches an element whose inner text is longer than 200 characters, whatever the
  later selectors match; when no selector of the list does, it extracts the inner text of
  the body of the document.
\<close>

theorem puppeteer_takes_first_over_200:
  "(i < length mainSelectors
      \<and> querySelector doc (mainSelectors ! i) = Some (Element (Some t)) \<and> 200 < length t
      \<and> (\<forall>j<i. \<forall>t'. querySelector doc (mainSelectors ! j) = Some (Element (Some t'))
                  \<longrightarrow> length t' \<le> 200)
      \<longrightarrow> extractText doc = Inr t)
   \<and> ((\<forall>s\<in>set mainSelectors. \<forall>t'. querySelector doc s = Some (Element (Some t'))
                  \<longrightarrow> length t' \<le> 200)
        \<and> bodyInnerText doc = Some b
      \<longrightarrow> extractText doc = Inr b)"
proof (intro conjI impI)
  assume h: "i < length mainSelectors
      \<and> querySelector doc (mainSelectors ! i) = Some (Element (Some t)) \<and> 200 < length t
      \<and> (\<forall>j<i. \<forall>t'. querySelector doc (mainSelectors ! j) = Some (Element (Some t'))
                  \<longrightarrow> length t' \<le> 200)"
  then have "over200 doc (mainSelectors ! i) = Some t"
    by (simp add: over200_Some)
  moreover from h have "\<forall>j<i. over200 doc (mainSelectors ! j) = None"
    by (simp add: over200_None)
  ultimately have "firstOver200 doc mainSelectors = Some t"
    using h firstOver200_first [of i mainSelectors doc t] by blast
  then show "extractText doc = Inr t"
    by (simp add: extractText_def)
next
  assume h: "(\<forall>s\<in>set mainSelectors. \<forall>t'. querySelector doc s = Some (Element (Some t'))
                  \<longrightarrow> length t' \<le> 200)
        \<and> bodyInnerText doc = Some b"
  then have "\<forall>s\<in>set mainSelectors. over200 doc s = None"
    by (simp add: over200_None)
  then have "firstOver200 doc mainSelectors = None"
    by (simp add: firstOver200_None)
  with h show "extractText doc = Inr b"
    by (simp add: extractText_def)
qed

theorem puppeteer_takes_first_over_200_witness:
  "extractText (renderedOf [(''main'', letters 201), (''article'', letters 500),
                            (''body'', letters 800)]) = Inr (letters 201)
   \<and> extractText (renderedOf [(''main'', letters 200), (''body'', letters 150)])
     = Inr (letters 150)"
proof
  let ?d = "renderedOf [(''main'', letters 201), (''article'', letters 500),
                        (''body'', letters 800)]"
  have "0 < length mainSelectors
      \<and> querySelector ?d (mainSelectors ! 0) = Some (Element (Some (letters 201)))
      \<and> 200 < length (letters 201)
      \<and> (\<forall>j<0. \<forall>t'. querySelector ?d (mainSelectors ! j) = Some (Element (Some t'))
                  \<longrightarrow> length t' \<le> 200)"
    by (simp add: mainSelectors_def renderedOf_def length_letters)
  with puppeteer_takes_first_over_200 [of 0 ?d "letters 201"]
  show "extractText ?d = Inr (letters 201)" by blast
next
  let ?d = "renderedOf [(''main'', letters 200), (''body'', letters 150)]"
  have "(\<forall>s\<in>set mainSelectors. \<forall>t'. querySelector ?d s = Some (Element (Some t'))
                  \<longrightarrow> length t' \<le> 200)
        \<and> bodyInnerText ?d = Some (letters 150)"
    by (auto simp: mainSelectors_def renderedOf_def length_letters)
  with puppeteer_takes_first_over_200 [of _ ?d _ "letters 150"]
  show "extractText ?d = Inr (letters 150)" by blast
qed

text \<open>
  C7, as stated, fails for \<open>truncateText\<close>, which appends \<open>...\<close> to the
  \<open>maxLength\<close> characters it keeps: \<open>truncateText('abcdef', 3)\<close> is \<open>abc...\<close>, of
  length 6.
\<close>

theorem truncateText_counterexample:
  "\<not> int (length (truncateText (str ''abcdef'') 3)) \<le> 3"
  by (simp add: truncateText_def substring_from_0 str_def)

text \<open>
  C7, amended. The text the fetchers clean and truncate is no longer than the configured
  maximum (than 0 when the maximum is negative), and so is the text of every result a
  fetcher returns. \<open>truncateText\<close> returns a text of at most \<open>maxLength\<close> characters
  as it is; of a longer text it returns the first \<open>maxLength\<close> characters followed by
  \<open>...\<close>, which is \<open>maxLength + 3\<close> characters.
\<close>

theorem truncation_lengths:
  "int (length (cleanedText cfg text')) \<le> max 0 (maxTextLength cfg)
   \<and> (fst (scrapeWithPuppeteer cfg w u log) = Some r \<longrightarrow>
        int (length (scr_text r)) \<le> maxTextLength cfg)
   \<and> (fst (scrapeWithCheerio cfg w u log) = Some r \<longrightarrow>
        int (length (scr_text r)) \<le> maxTextLength cfg)
   \<and> (int (length text') \<le> m \<longrightarrow> truncateText text' m = text')
   \<and> (m < int (length text') \<longrightarrow>
        truncateText text' m = take (nat m) text' @ str ''...''
        \<and> int (length (truncateText text' m)) = max 0 m + 3)"
proof (intro conjI)
  have bound: "int (length (cleanedText cfg s)) \<le> max 0 (maxTextLength cfg)" for s
    by (auto simp: cleanedText_def substring_from_0)
  show "int (length (cleanedText cfg text')) \<le> max 0 (maxTextLength cfg)"
    by (rule bound)
  show "fst (scrapeWithPuppeteer cfg w u log) = Some r \<longrightarrow>
        int (length (scr_text r)) \<le> maxTextLength cfg"
  proof
    assume "fst (scrapeWithPuppeteer cfg w u log) = Some r"
    then obtain t where "scr_text r = cleanedText cfg t" "100 < length (cleanedText cfg t)"
      unfolding scrapeWithPuppeteer_Some by auto
    with bound [of t] show "int (length (scr_text r)) \<le> maxTextLength cfg" by simp
  qed
  show "fst (scrapeWithCheerio cfg w u log) = Some r \<longrightarrow>
        int (length (scr_text r)) \<le> maxTextLength cfg"
  proof
    assume "fst (scrapeWithCheerio cfg w u log) = Some r"
    then obtain t where "scr_text r = cleanedText cfg t" "100 < length (cleanedText cfg t)"
      unfolding scrapeWithCheerio_Some by auto
    with bound [of t] show "int (length (scr_text r)) \<le> maxTextLength cfg" by simp
  qed
  show "int (length text') \<le> m \<longrightarrow> truncateText text' m = text'"
    by (simp add: truncateText_def)
  show "m < int (length text') \<longrightarrow>
        truncateText text' m = take (nat m) text' @ str ''...''
        \<and> int (length (truncateText text' m)) = max 0 m + 3"
    by (auto simp: truncateText_def substring_from_0 length_str)
qed

theorem truncation_lengths_witness:
  "length (cleanedText defaultConfig (letters 12000)) = 10000
   \<and> truncateText (str ''abc'') 3 = str ''abc''
   \<and> truncateText (str ''abcdef'') 3 = str ''abc...''
   \<and> (\<exists>r. fst (scrapeWithPuppeteer defaultConfig (exampleWorld [(''body'', letters 150)] [])
                 articleUrl []) = Some r
          \<and> int (length (scr_text r)) \<le> maxTextLength defaultConfig)"
proof (intro conjI)
  have "int (length (str ''abc'')) \<le> 3" by (simp add: str_def)
  with truncation_lengths [of _ "str ''abc''" _ _ _ _ 3]
  show "truncateText (str ''abc'') 3 = str ''abc''" by blast
  have "3 < int (length (str ''abcdef''))" by (simp add: str_def)
  with truncation_lengths [of _ "str ''abcdef''" _ _ _ _ 3]
  have "truncateText (str ''abcdef'') 3 = take (nat 3) (str ''abcdef'') @ str ''...''" by blast
  then show "truncateText (str ''abcdef'') 3 = str ''abc...''" by (simp add: str_def)
  from rendered_150 [of "[]" "[]"] obtain r where
    r: "fst (scrapeWithPuppeteer defaultConfig (exampleWorld [(''body'', letters 150)] [])
              articleUrl []) = Some r" by blast
  with truncation_lengths
    [of defaultConfig _ "exampleWorld [(''body'', letters 150)] []" articleUrl "[]" r]
  show "\<exists>r. fst (scrapeWithPuppeteer defaultConfig (exampleWorld [(''body'', letters 150)] [])
                 articleUrl []) = Some r
          \<and> int (length (scr_text r)) \<le> maxTextLength defaultConfig"
    by blast
  have "int (length (cleanedText defaultConfig (letters 12000))) \<le> 10000"
    using truncation_lengths [of defaultConfig "letters 12000"]
    by (simp add: defaultConfig_def)
  moreover have "length (cleanedText defaultConfig (letters 12000)) = 10000"
    by (simp add: cleanedText_letters defaultConfig_def length_letters)
  ultimately show "length (cleanedText defaultConfig (letters 12000)) = 10000" by simp
qed

end
